theory Spec2Isabelle
  imports Main "HOL-Library.Sublist"
begin

section \<open>Python exceptions\<close>

text \<open>
  The exceptions that the modelled code, the standard library calls it makes and the
  wrapped computation can raise. \<open>Raised\<close> stands for any other exception of a wrapped
  computation, with its message.
\<close>

datatype error =
    TypeError
  | ValueError
  | AttributeError
  | KeyError string
  | FileExistsError
  | FileNotFoundError
  | NotADirectoryError
  | IsADirectoryError
  | Raised string

section \<open>\<open>ard/eco/eagle_density.py\<close>: the eagle density component\<close>

subsection \<open>The fitted spline, as the component uses it\<close>

text \<open>
  \<open>setup\<close> stores a \<open>scipy.interpolate.RectBivariateSpline\<close> in
  \<open>self.eagle_density_function\<close>. The fitting library is not part of the repository;
  the fitted object is represented by the two ways the component uses it:
  \<^item> \<open>call s xt yt\<close> is \<open>s(xt, yt)\<close>, the object called on one scalar pair, returning
    whatever the library returns there (type \<open>'v\<close>);
  \<^item> \<open>deriv s dx dy x y\<close> is the value at the point \<open>(x, y)\<close> of the derivative of order
    \<open>dx\<close> in the first and \<open>dy\<close> in the second coordinate, computed by the library from
    the fitted coefficients (type \<open>'d\<close>).
  Coordinates have type \<open>'c\<close>. Nothing is assumed about either function.
\<close>

record ('c, 'v, 'd) RectBivariateSpline =
  call :: "'c \<Rightarrow> 'c \<Rightarrow> 'v"
  deriv :: "nat \<Rightarrow> nat \<Rightarrow> 'c \<Rightarrow> 'c \<Rightarrow> 'd"

text \<open>
  \<open>s.ev(xi, yi, dx, dy)\<close> on one-dimensional arrays evaluates at the points
  \<open>(xi[k], yi[k])\<close>; arrays of different lengths are broadcast against each other when
  one of them has length one, and are refused with \<open>ValueError\<close> otherwise.
\<close>

definition ev ::
  "('c, 'v, 'd) RectBivariateSpline \<Rightarrow> 'c list \<Rightarrow> 'c list \<Rightarrow> nat \<Rightarrow> nat \<Rightarrow> error + 'd list"
where
  "ev s xi yi dx dy =
     (if length xi = length yi then Inr (map (\<lambda>(x, y). deriv s dx dy x y) (zip xi yi))
      else if length xi = 1 then Inr (map (\<lambda>y. deriv s dx dy (hd xi) y) yi)
      else if length yi = 1 then Inr (map (\<lambda>x. deriv s dx dy x (hd yi)) xi)
      else Inl ValueError)"

text \<open>\<open>np.diag(v)\<close> on a one-dimensional array: the square matrix with \<open>v\<close> on its diagonal.\<close>

definition diag :: "'d::zero list \<Rightarrow> 'd list list" where
  "diag v = map (\<lambda>i. map (\<lambda>j. if i = j then v ! i else 0) [0..<length v]) [0..<length v]"

subsection \<open>The component\<close>

text \<open>
  The attributes \<open>setup\<close> leaves on the component that \<open>compute\<close> and
  \<open>compute_partials\<close> can see, and the two input arrays of a call.
\<close>

record ('c, 'v, 'd) EagleDensityFunction =
  N_turbines :: nat
  eagle_density_function :: "('c, 'v, 'd) RectBivariateSpline"

record 'c inputs =
  x_turbines :: "'c list"
  y_turbines :: "'c list"

type_synonym 'v outputs = "string \<rightharpoonup> 'v list"
type_synonym 'd partials = "(string \<times> string) \<rightharpoonup> 'd list list"

text \<open>
  \<open>compute(self, inputs, outputs)\<close> stores into \<open>outputs\<close>; the model returns the
  component and the dictionary after the call. The list comprehension runs over
  \<open>zip(x_turbines, y_turbines)\<close>, which stops at the end of the shorter array.
\<close>

definition compute ::
  "('c, 'v, 'd) EagleDensityFunction \<Rightarrow> 'c inputs \<Rightarrow> 'v outputs \<Rightarrow>
   error + (('c, 'v, 'd) EagleDensityFunction \<times> 'v outputs)"
where
  "compute self inp outputs =
     (let xs = x_turbines inp;
          ys = y_turbines inp
      in Inr (self,
              outputs(''eagle_normalized_density'' \<mapsto>
                map (\<lambda>(xt, yt). call (eagle_density_function self) xt yt) (zip xs ys))))"

text \<open>
  \<open>compute_partials(self, inputs, partials)\<close>: both calls of \<open>ev\<close> come before either
  store, so an exception of either leaves \<open>partials\<close> untouched.
\<close>

definition compute_partials ::
  "('c, 'v, 'd::zero) EagleDensityFunction \<Rightarrow> 'c inputs \<Rightarrow> 'd partials \<Rightarrow>
   error + (('c, 'v, 'd) EagleDensityFunction \<times> 'd partials)"
where
  "compute_partials self inp partials =
     (let xs = x_turbines inp;
          ys = y_turbines inp
      in case ev (eagle_density_function self) xs ys 1 0 of
           Inl e \<Rightarrow> Inl e
         | Inr dfdx \<Rightarrow>
             (case ev (eagle_density_function self) xs ys 0 1 of
                Inl e \<Rightarrow> Inl e
              | Inr dfdy \<Rightarrow>
                  Inr (self,
                       partials((''eagle_normalized_density'', ''x_turbines'') \<mapsto> diag dfdx,
                                (''eagle_normalized_density'', ''y_turbines'') \<mapsto> diag dfdy))))"

text \<open>The array written by \<open>compute\<close>, read back from the dictionary.\<close>

definition density ::
  "('c, 'v, 'd) EagleDensityFunction \<Rightarrow> 'c inputs \<Rightarrow> 'v list option"
where
  "density self inp =
     (case compute self inp Map.empty of
        Inl e \<Rightarrow> None
      | Inr (self', outputs) \<Rightarrow> outputs ''eagle_normalized_density'')"

text \<open>The two Jacobian blocks written by \<open>compute_partials\<close>, read back likewise.\<close>

definition jacobian ::
  "('c, 'v, 'd::zero) EagleDensityFunction \<Rightarrow> 'c inputs \<Rightarrow> string \<Rightarrow> 'd list list option"
where
  "jacobian self inp wrt =
     (case compute_partials self inp Map.empty of
        Inl e \<Rightarrow> None
      | Inr (self', partials) \<Rightarrow> partials (''eagle_normalized_density'', wrt))"

subsection \<open>A driver calling the component repeatedly\<close>

text \<open>
  The optimisation driver calls \<open>compute\<close> and \<open>compute_partials\<close> again and again on
  the same component, with the same \<open>outputs\<close> and \<open>partials\<close> dictionaries, which keep
  what earlier calls stored. A raised exception leaves all three as they were. After
  each call the driver reads what that call stored.
\<close>

datatype 'c request = Compute "'c inputs" | Compute_partials "'c inputs"

datatype ('v, 'd) reply =
    Density "'v list option"
  | Jacobians "'d list list option" "'d list list option"
  | Exception error

type_synonym ('c, 'v, 'd) driver_state =
  "('c, 'v, 'd) EagleDensityFunction \<times> 'v outputs \<times> 'd partials"

fun serve ::
  "('c, 'v, 'd::zero) driver_state \<Rightarrow> 'c request \<Rightarrow> ('c, 'v, 'd) driver_state \<times> ('v, 'd) reply"
where
  "serve (self, outputs, partials) (Compute inp) =
     (case compute self inp outputs of
        Inl e \<Rightarrow> ((self, outputs, partials), Exception e)
      | Inr (self', outputs') \<Rightarrow>
          ((self', outputs', partials), Density (outputs' ''eagle_normalized_density'')))"
| "serve (self, outputs, partials) (Compute_partials inp) =
     (case compute_partials self inp partials of
        Inl e \<Rightarrow> ((self, outputs, partials), Exception e)
      | Inr (self', partials') \<Rightarrow>
          ((self', outputs, partials'),
           Jacobians (partials' (''eagle_normalized_density'', ''x_turbines''))
                     (partials' (''eagle_normalized_density'', ''y_turbines''))))"

fun run ::
  "('c, 'v, 'd::zero) driver_state \<Rightarrow> 'c request list \<Rightarrow>
   ('c, 'v, 'd) driver_state \<times> ('v, 'd) reply list"
where
  "run st [] = (st, [])"
| "run st (r # rs) =
     (case serve st r of
        (st', a) \<Rightarrow> (case run st' rs of (st'', as) \<Rightarrow> (st'', a # as)))"

text \<open>What a single call replies on a component with empty dictionaries.\<close>

definition answer ::
  "('c, 'v, 'd::zero) EagleDensityFunction \<Rightarrow> 'c request \<Rightarrow> ('v, 'd) reply"
where
  "answer self r = snd (serve (self, Map.empty, Map.empty) r)"

section \<open>\<open>ard/utils/logging.py\<close>: capturing output in log files\<close>

subsection \<open>Components, as the logging functions read them\<close>

text \<open>
  The functions read a few attributes of the component they are given. An attribute or
  a dictionary key that may be missing is an \<open>option\<close>:
  \<^item> \<open>model\<close> is the object that calling \<open>problem_meta["model_ref"]\<close> returns;
    \<open>iter_count m = None\<close> when it has no attribute \<open>iter_count\<close> (or the attribute
    is \<open>None\<close>, which \<open>extract_iter\<close> returns all the same);
  \<^item> \<open>model_ref_value\<close> is what the dictionary holds under \<open>"model_ref"\<close>: a reference that
    can be called, or an object that cannot;
  \<^item> \<open>problem_meta_value\<close> is the value of the attribute \<open>_problem_meta\<close>: \<open>None\<close>, as
    a component has it until it is set up in a problem, or a dictionary, of which two
    keys are read;
  \<^item> \<open>is_Component c\<close> is
    \<open>isinstance(component, openmdao.core.component.Component)\<close>;
  \<^item> \<open>comm_rank c\<close> is \<open>component._comm.rank\<close>.
\<close>

record model =
  iter_count :: "int option"

type_synonym path = "string list"

datatype model_ref_value = Reference model | Not_callable

record problem_meta_dict =
  model_ref :: "model_ref_value option"
  reports_dir :: "path option"

datatype problem_meta_value = Meta_None | Meta_dict problem_meta_dict

record component =
  is_Component :: bool
  problem_meta :: "problem_meta_value option"
  pathname :: string
  comm_rank :: nat

text \<open>
  \<open>extract_iter\<close>: \<open>hasattr\<close> guards the attribute, but \<open>"model_ref" not in problem_meta\<close>
  raises \<open>TypeError\<close> when the attribute is \<open>None\<close>, and so does the call of a
  \<open>model_ref\<close> that is not callable.
\<close>

definition extract_iter :: "component \<Rightarrow> error + int option" where
  "extract_iter c =
     (case problem_meta c of
        None \<Rightarrow> Inr None
      | Some Meta_None \<Rightarrow> Inl TypeError
      | Some (Meta_dict pm) \<Rightarrow>
          (case model_ref pm of
             None \<Rightarrow> Inr None
           | Some Not_callable \<Rightarrow> Inl TypeError
           | Some (Reference m) \<Rightarrow>
               (case iter_count m of
                  None \<Rightarrow> Inr None
                | Some n \<Rightarrow> Inr (Some n))))"

subsection \<open>Strings: \<open>str.split\<close> and the format specification \<open>0wd\<close>\<close>






subsection \<open>The file system\<close>











subsection \<open>\<open>name_create_log\<close>\<close>





subsection \<open>\<open>component_log_capture\<close>\<close>




subsection \<open>Example objects\<close>

text \<open>
  A fitted object over integer coordinates for concrete evaluations: the plane
  \<open>f(x, y) = x + 2y\<close> with its exact first derivatives, in a component for two turbines.
\<close>

definition ramp :: "(int, int, int) RectBivariateSpline" where
  "ramp = \<lparr>call = (\<lambda>x y. x + 2 * y),
           deriv = (\<lambda>dx dy x y. if dx = 1 \<and> dy = 0 then 1
                                 else if dx = 0 \<and> dy = 1 then 2 else 0)\<rparr>"

definition ramp_component :: "(int, int, int) EagleDensityFunction" where
  "ramp_component = \<lparr>N_turbines = 2, eagle_density_function = ramp\<rparr>"

text \<open>
  For the logging functions: a component \<open>farm.aep\<close> on rank 0 whose model is at iteration
  3; a disk where its log directory is left over from an earlier use, with an old log
  file and another file in it; a process writing to the terminal; and a wrapped
  computation that rebinds \<open>sys.stdout\<close> and then raises.
\<close>

definition aep :: component where
  "aep = \<lparr>is_Component = True,
          problem_meta = Some (Meta_dict \<lparr>model_ref = Some (Reference \<lparr>iter_count = Some 3\<rparr>),
                                          reports_dir = Some [''run'', ''reports'']\<rparr>),
          pathname = ''farm.aep'',
          comm_rank = 0\<rparr>"




section \<open>Helper lemmas\<close>

lemma density_eq:
  "density self inp =
     Some (map (\<lambda>(xt, yt). call (eagle_density_function self) xt yt)
             (zip (x_turbines inp) (y_turbines inp)))"
  by (simp add: density_def compute_def Let_def)

lemma length_diag: "length (diag v) = length v"
  by (simp add: diag_def)

lemma length_diag_row: "i < length v \<Longrightarrow> length (diag v ! i) = length v"
  by (simp add: diag_def)

lemma diag_entry:
  "i < length v \<Longrightarrow> j < length v \<Longrightarrow> diag v ! i ! j = (if i = j then v ! i else 0)"
  by (simp add: diag_def)

lemma ev_equal_lengths:
  "length xi = length yi \<Longrightarrow>
   ev s xi yi dx dy = Inr (map (\<lambda>(x, y). deriv s dx dy x y) (zip xi yi))"
  by (simp add: ev_def)

lemma serve_component: "fst (fst (serve (self, outputs, partials) r)) = self"
  by (cases r) (auto simp: compute_def compute_partials_def Let_def split: sum.splits)

lemma serve_reply:
  "snd (serve (self, outputs, partials) r) = answer self r"
  by (cases r)
     (auto simp: answer_def compute_def compute_partials_def Let_def split: sum.splits)

subsection \<open>\<open>extract_iter\<close>\<close>

lemma extract_iter_cases:
  "extract_iter c =
     (case problem_meta c of
        None \<Rightarrow> Inr None
      | Some Meta_None \<Rightarrow> Inl TypeError
      | Some (Meta_dict pm) \<Rightarrow>
          (case model_ref pm of
             None \<Rightarrow> Inr None
           | Some Not_callable \<Rightarrow> Inl TypeError
           | Some (Reference m) \<Rightarrow> Inr (iter_count m)))"
  by (simp add: extract_iter_def
           split: option.splits problem_meta_value.splits model_ref_value.splits)

lemma extract_iter_error: "extract_iter c = Inl e \<Longrightarrow> e = TypeError"
  by (auto simp: extract_iter_def
           split: option.splits problem_meta_value.splits model_ref_value.splits)

subsection \<open>The file system operations and \<open>name_create_log\<close>\<close>




























section \<open>Properties of the density component\<close>

text \<open>
  C1. For a query batch of equal-length arrays \<open>x\<close> and \<open>y\<close> of length \<open>N\<close>, \<open>compute\<close>
  raises nothing and stores a density array of length exactly \<open>N\<close> whose \<open>i\<close>-th entry is
  the fitted spline called on the single pair \<open>(x[i], y[i])\<close>.
\<close>

theorem compute_pointwise:
  assumes "length (x_turbines inp) = N" and "length (y_turbines inp) = N"
  shows "\<exists>d. compute self inp outputs
               = Inr (self, outputs(''eagle_normalized_density'' \<mapsto> d))
             \<and> density self inp = Some d
             \<and> length d = N
             \<and> (\<forall>i<N. d ! i = call (eagle_density_function self)
                                 (x_turbines inp ! i) (y_turbines inp ! i))"
  using assms by (simp add: compute_def density_eq Let_def)

theorem compute_pointwise_witness:
  "\<exists>d. compute ramp_component \<lparr>x_turbines = [1, 5], y_turbines = [10, 20]\<rparr> Map.empty
         = Inr (ramp_component, [''eagle_normalized_density'' \<mapsto> d])
       \<and> density ramp_component \<lparr>x_turbines = [1, 5], y_turbines = [10, 20]\<rparr> = Some d
       \<and> length d = 2 \<and> d ! 0 = 21 \<and> d ! 1 = 45"
  using compute_pointwise
    [of "\<lparr>x_turbines = [1, 5], y_turbines = [10, 20]\<rparr>" 2 ramp_component Map.empty]
  by (auto simp: ramp_component_def ramp_def nth_Cons')

text \<open>
  C2. For a query batch of length \<open>N\<close>, \<open>compute_partials\<close> raises nothing and stores two
  Jacobian blocks that are \<open>N\<close> by \<open>N\<close>, zero everywhere off the diagonal, with the
  \<open>i\<close>-th diagonal entry of the block for \<open>x\<close> (for \<open>y\<close>) equal to the spline's first
  derivative in \<open>x\<close> (in \<open>y\<close>) at \<open>(x[i], y[i])\<close>.
\<close>

theorem compute_partials_diagonal:
  fixes self :: "('c, 'v, 'd::zero) EagleDensityFunction"
  assumes "length (x_turbines inp) = N" and "length (y_turbines inp) = N"
  shows "\<exists>Jx Jy.
           compute_partials self inp partials
             = Inr (self, partials((''eagle_normalized_density'', ''x_turbines'') \<mapsto> Jx,
                                   (''eagle_normalized_density'', ''y_turbines'') \<mapsto> Jy))
         \<and> jacobian self inp ''x_turbines'' = Some Jx
         \<and> jacobian self inp ''y_turbines'' = Some Jy
         \<and> length Jx = N \<and> length Jy = N
         \<and> (\<forall>i<N. length (Jx ! i) = N \<and> length (Jy ! i) = N)
         \<and> (\<forall>i<N. \<forall>j<N.
               Jx ! i ! j = (if i = j
                             then deriv (eagle_density_function self) 1 0
                                    (x_turbines inp ! i) (y_turbines inp ! i)
                             else 0)
             \<and> Jy ! i ! j = (if i = j
                             then deriv (eagle_density_function self) 0 1
                                    (x_turbines inp ! i) (y_turbines inp ! i)
                             else 0))"
proof -
  let ?s = "eagle_density_function self"
  let ?dx = "map (\<lambda>(x, y). deriv ?s 1 0 x y) (zip (x_turbines inp) (y_turbines inp))"
  let ?dy = "map (\<lambda>(x, y). deriv ?s 0 1 x y) (zip (x_turbines inp) (y_turbines inp))"
  have eq: "length (x_turbines inp) = length (y_turbines inp)"
    using assms by simp
  have ex: "ev ?s (x_turbines inp) (y_turbines inp) 1 0 = Inr ?dx"
    and ey: "ev ?s (x_turbines inp) (y_turbines inp) 0 1 = Inr ?dy"
    using eq by (simp_all add: ev_equal_lengths)
  have lx: "length ?dx = N" and ly: "length ?dy = N"
    using assms by simp_all
  have run: "compute_partials self inp partials
               = Inr (self, partials((''eagle_normalized_density'', ''x_turbines'') \<mapsto> diag ?dx,
                                     (''eagle_normalized_density'', ''y_turbines'') \<mapsto> diag ?dy))"
    for partials :: "'d partials"
    unfolding compute_partials_def Let_def ex ey by simp
  have jx: "jacobian self inp ''x_turbines'' = Some (diag ?dx)"
    and jy: "jacobian self inp ''y_turbines'' = Some (diag ?dy)"
    unfolding jacobian_def run by simp_all
  have rows: "\<forall>i<N. length (diag ?dx ! i) = N \<and> length (diag ?dy ! i) = N"
    using lx ly by (simp add: length_diag_row)
  have entries: "\<forall>i<N. \<forall>j<N.
      diag ?dx ! i ! j = (if i = j then deriv ?s 1 0 (x_turbines inp ! i) (y_turbines inp ! i) else 0)
    \<and> diag ?dy ! i ! j = (if i = j then deriv ?s 0 1 (x_turbines inp ! i) (y_turbines inp ! i) else 0)"
    using assms lx ly by (simp add: diag_entry)
  show ?thesis
    using run jx jy rows entries lx ly by (simp add: length_diag)
qed

theorem compute_partials_diagonal_witness:
  "\<exists>Jx Jy.
     jacobian ramp_component \<lparr>x_turbines = [1, 5], y_turbines = [10, 20]\<rparr> ''x_turbines''
       = Some Jx
   \<and> jacobian ramp_component \<lparr>x_turbines = [1, 5], y_turbines = [10, 20]\<rparr> ''y_turbines''
       = Some Jy
   \<and> length Jx = 2 \<and> length Jy = 2
   \<and> length (Jx ! 0) = 2 \<and> length (Jx ! 1) = 2 \<and> length (Jy ! 0) = 2 \<and> length (Jy ! 1) = 2
   \<and> Jx ! 0 ! 0 = 1 \<and> Jx ! 0 ! 1 = 0 \<and> Jx ! 1 ! 0 = 0 \<and> Jx ! 1 ! 1 = 1
   \<and> Jy ! 0 ! 0 = 2 \<and> Jy ! 0 ! 1 = 0 \<and> Jy ! 1 ! 0 = 0 \<and> Jy ! 1 ! 1 = 2"
  using compute_partials_diagonal
    [of "\<lparr>x_turbines = [1, 5], y_turbines = [10, 20]\<rparr>" 2 ramp_component Map.empty]
  by (auto simp: ramp_component_def ramp_def nth_Cons')


text \<open>
  C7. Two query batches of the same length \<open>N\<close> that agree at index \<open>i\<close>, and differ
  anywhere else, get the same density at index \<open>i\<close>.
\<close>

theorem compute_noninterference:
  assumes "length (x_turbines inp1) = N" and "length (y_turbines inp1) = N"
    and "length (x_turbines inp2) = N" and "length (y_turbines inp2) = N"
    and "i < N"
    and "x_turbines inp1 ! i = x_turbines inp2 ! i"
    and "y_turbines inp1 ! i = y_turbines inp2 ! i"
  shows "\<exists>d1 d2. density self inp1 = Some d1 \<and> density self inp2 = Some d2
                 \<and> length d1 = N \<and> length d2 = N \<and> d1 ! i = d2 ! i"
  using assms by (simp add: density_eq)

theorem compute_noninterference_witness:
  "\<exists>d1 d2. density ramp_component \<lparr>x_turbines = [1, 5], y_turbines = [10, 20]\<rparr> = Some d1
          \<and> density ramp_component \<lparr>x_turbines = [7, 5], y_turbines = [0, 20]\<rparr> = Some d2
          \<and> d1 ! 0 \<noteq> d2 ! 0 \<and> d1 ! 1 = d2 ! 1"
  using compute_noninterference
    [of "\<lparr>x_turbines = [1, 5], y_turbines = [10, 20]\<rparr>" 2
        "\<lparr>x_turbines = [7, 5], y_turbines = [0, 20]\<rparr>" 1 ramp_component]
  by (auto simp: density_eq ramp_component_def ramp_def)

text \<open>
  C8. Calls of \<open>compute\<close> and \<open>compute_partials\<close> leave the component, and with it the
  fitted spline, as it was: after any sequence of calls the component is the one the
  sequence started with, and every call replies what a single call with the same batch
  replies on that component with empty dictionaries. So equal batches get equal
  densities and Jacobians wherever they stand in the sequence, and nothing an earlier
  call stored changes a later reply.
\<close>

theorem evaluation_stateless:
  "fst (fst (run (self, outputs, partials) rs)) = self
   \<and> snd (run (self, outputs, partials) rs) = map (answer self) rs"
proof (induction rs arbitrary: outputs partials)
  case Nil
  show ?case by simp
next
  case (Cons r rs)
  obtain self' outputs' partials' a
    where step: "serve (self, outputs, partials) r = ((self', outputs', partials'), a)"
    by (metis prod.exhaust)
  have same: "self' = self"
    using serve_component [of self outputs partials r] step by simp
  have reply: "a = answer self r"
    using serve_reply [of self outputs partials r] step by simp
  obtain st'' as where rest: "run (self, outputs', partials') rs = (st'', as)"
    by (metis prod.exhaust)
  have "fst st'' = self" and "as = map (answer self) rs"
    using Cons.IH [of outputs' partials'] rest by simp_all
  then show ?case
    using step same reply rest by simp
qed

theorem evaluation_stateless_witness:
  "fst (fst (run (ramp_component, Map.empty, Map.empty)
               [Compute \<lparr>x_turbines = [1, 5], y_turbines = [10, 20]\<rparr>,
                Compute_partials \<lparr>x_turbines = [1, 5], y_turbines = [10, 20]\<rparr>,
                Compute \<lparr>x_turbines = [7, 5], y_turbines = [0, 20]\<rparr>,
                Compute \<lparr>x_turbines = [1, 5], y_turbines = [10, 20]\<rparr>])) = ramp_component
   \<and> snd (run (ramp_component, Map.empty, Map.empty)
            [Compute \<lparr>x_turbines = [1, 5], y_turbines = [10, 20]\<rparr>,
             Compute_partials \<lparr>x_turbines = [1, 5], y_turbines = [10, 20]\<rparr>,
             Compute \<lparr>x_turbines = [7, 5], y_turbines = [0, 20]\<rparr>,
             Compute \<lparr>x_turbines = [1, 5], y_turbines = [10, 20]\<rparr>])
     = [Density (Some [21, 45]),
        Jacobians (Some [[1, 0], [0, 1]]) (Some [[2, 0], [0, 2]]),
        Density (Some [7, 45]),
        Density (Some [21, 45])]"
  using evaluation_stateless
    [of ramp_component Map.empty Map.empty
        "[Compute \<lparr>x_turbines = [1, 5], y_turbines = [10, 20]\<rparr>,
          Compute_partials \<lparr>x_turbines = [1, 5], y_turbines = [10, 20]\<rparr>,
          Compute \<lparr>x_turbines = [7, 5], y_turbines = [0, 20]\<rparr>,
          Compute \<lparr>x_turbines = [1, 5], y_turbines = [10, 20]\<rparr>]"]
  by (simp add: answer_def compute_def compute_partials_def ev_def diag_def Let_def
        ramp_component_def ramp_def upt_rec)

section \<open>Properties of the logging functions\<close>

text \<open>
  C10. The claim is that \<open>extract_iter\<close> never raises and returns \<open>None\<close> whenever the
  iteration count cannot be reached. For a component whose attribute \<open>_problem_meta\<close>
  is present and \<open>None\<close>, as it is before the component is set up in a problem, the
  membership test \<open>"model_ref" not in problem_meta\<close> raises \<open>TypeError\<close>; so does the call
  of a \<open>model_ref\<close> that is not callable. With the attribute absent the function
  returns \<open>None\<close>, and with a dictionary, a callable reference and a model at
  iteration 3 it returns 3.
\<close>

theorem extract_iter_raises_before_setup:
  "extract_iter \<lparr>is_Component = True, problem_meta = Some Meta_None,
                  pathname = ''farm.aep'', comm_rank = 0\<rparr> = Inl TypeError
   \<and> extract_iter \<lparr>is_Component = True,
                    problem_meta = Some (Meta_dict \<lparr>model_ref = Some Not_callable,
                                                    reports_dir = None\<rparr>),
                    pathname = ''farm.aep'', comm_rank = 0\<rparr> = Inl TypeError
   \<and> extract_iter \<lparr>is_Component = True, problem_meta = None,
                    pathname = ''farm.aep'', comm_rank = 0\<rparr> = Inr None
   \<and> extract_iter aep = Inr (Some 3)"
  by (simp add: extract_iter_def aep_def)



end
